theory Spec2Isabelle
  imports Main
begin

section \<open>Domain entities\<close>

text \<open>
  A \<open>primitive.ObjectID\<close> is a 12-byte array; it is kept as the list of its bytes.
  A \<open>time.Time\<close> is kept as the instant it denotes (an integer count of clock ticks),
  so that \<open>a.Before(b)\<close> is \<open>a < b\<close>. Every reading of \<open>time.Now()\<close> is an
  argument of the function that takes it.
\<close>

type_synonym ObjectID = string
type_synonym Time = int

text \<open>
  A Go \<open>error\<close> value: the sentinel \<open>mongo.ErrNoDocuments\<close>, which the code
  compares by identity, or an error made by \<open>errors.New\<close> (or by the driver) with
  its message. The nil error is \<open>None\<close> of \<open>error option\<close>.
\<close>

datatype error = ErrNoDocuments | Err string

text \<open>
  A call either returns or panics; the panics of the modelled code are the
  dereference of a nil pointer and a failed type assertion.
\<close>

datatype 'a outcome = Returns 'a | Panics

definition StatusPending :: string where
  "StatusPending = ''pending''"

definition StatusInProgress :: string where
  "StatusInProgress = ''in_progress''"

definition StatusCompleted :: string where
  "StatusCompleted = ''completed''"

record Claims =
  UserID :: string
  Role :: string
  ExpiresAt :: int
  IssuedAt :: int

record User =
  ID :: ObjectID
  Name :: string
  Email :: string
  Password :: string
  Role :: string
  CreatedAt :: Time
  UpdatedAt :: Time

record Task =
  ID :: ObjectID
  Title :: string
  Description :: string
  DueDate :: Time
  Status :: string
  UserID :: ObjectID
  CreatedAt :: Time
  UpdatedAt :: Time

section \<open>The document store\<close>

text \<open>
  The collection behind a repository, as far as the repositories use it: the
  documents it holds, in insertion order, and the error every operation answers
  with while the store cannot be reached (\<open>None\<close>: the store is reachable).
  \<open>FindOne(filter).Decode\<close> yields the first document that matches the filter, the
  sentinel \<open>mongo.ErrNoDocuments\<close> when none does, or the store's error.
\<close>

record 'd Collection =
  docs :: "'d list"
  outage :: "error option"

datatype 'd SingleResult = Decoded 'd | DecodeError error

definition FindOne :: "'d Collection \<Rightarrow> ('d \<Rightarrow> bool) \<Rightarrow> 'd SingleResult" where
  "FindOne c matches =
     (case outage c of
        Some e \<Rightarrow> DecodeError e
      | None \<Rightarrow>
          (case find matches (docs c) of
             None \<Rightarrow> DecodeError ErrNoDocuments
           | Some d \<Rightarrow> Decoded d))"

text \<open>
  \<open>InsertOne\<close> stores the document under the identifier the driver assigns and
  answers with that identifier; \<open>assigned\<close> is the identifier of this call.
\<close>

definition InsertOne ::
  "Task Collection \<Rightarrow> ObjectID \<Rightarrow> Task \<Rightarrow> (ObjectID option \<times> error option) \<times> Task Collection" where
  "InsertOne c assigned d =
     (case outage c of
        Some e \<Rightarrow> ((None, Some e), c)
      | None \<Rightarrow> ((Some assigned, None), c\<lparr>docs := docs c @ [d\<lparr>Task.ID := assigned\<rparr>]\<rparr>))"

text \<open>
  \<open>UpdateOne(filter, {"$set": d})\<close> overwrites the fields of the first matching
  document with those of \<open>d\<close> and answers with the number of documents matched.
\<close>

fun set_first :: "('d \<Rightarrow> bool) \<Rightarrow> 'd \<Rightarrow> 'd list \<Rightarrow> 'd list" where
  "set_first matches d [] = []"
| "set_first matches d (x # xs) =
     (if matches x then d # xs else x # set_first matches d xs)"

definition UpdateOne ::
  "'d Collection \<Rightarrow> ('d \<Rightarrow> bool) \<Rightarrow> 'd \<Rightarrow> (nat \<times> error option) \<times> 'd Collection" where
  "UpdateOne c matches d =
     (case outage c of
        Some e \<Rightarrow> ((0, Some e), c)
      | None \<Rightarrow>
          (case find matches (docs c) of
             None \<Rightarrow> ((0, None), c)
           | Some _ \<Rightarrow> ((1, None), c\<lparr>docs := set_first matches d (docs c)\<rparr>)))"

section \<open>The task repository\<close>

text \<open>
  \<open>domain.TaskRepository\<close>, the interface the task use case is written against,
  over the state \<open>'s\<close> of whatever implements it. A method that returns a pointer
  and an error returns the pair of the two, \<open>None\<close> for nil.
\<close>

record 's TaskRepository =
  Create :: "Task \<Rightarrow> 's \<Rightarrow> (Task option \<times> error option) \<times> 's"
  GetByID :: "ObjectID \<Rightarrow> 's \<Rightarrow> (Task option \<times> error option) \<times> 's"
  Update :: "Task \<Rightarrow> 's \<Rightarrow> error option \<times> 's"

text \<open>
  The implementation on a collection. \<open>Create\<close> stamps the task with two readings
  of the clock, \<open>t1\<close> and \<open>t2\<close>, before inserting it and returns it with the
  assigned identifier; \<open>Update\<close> stamps it with one reading. The request's
  \<open>context.Context\<close> is never nil, so the guard of \<open>Create\<close> on it has no branch.
\<close>

definition taskRepository_Create ::
  "Time \<Rightarrow> Time \<Rightarrow> ObjectID \<Rightarrow> Task \<Rightarrow> Task Collection
     \<Rightarrow> (Task option \<times> error option) \<times> Task Collection" where
  "taskRepository_Create t1 t2 assigned task c =
     (let task1 = task\<lparr>Task.CreatedAt := t1, Task.UpdatedAt := t2\<rparr> in
      case InsertOne c assigned task1 of
        ((_, Some e), c1) \<Rightarrow> ((None, Some e), c1)
      | ((None, None), c1) \<Rightarrow>
          ((None, Some (Err ''failed to parse inserted ID as ObjectID'')), c1)
      | ((Some i, None), c1) \<Rightarrow> ((Some (task1\<lparr>Task.ID := i\<rparr>), None), c1))"

definition taskRepository_GetByID ::
  "ObjectID \<Rightarrow> Task Collection \<Rightarrow> (Task option \<times> error option) \<times> Task Collection" where
  "taskRepository_GetByID i c =
     (case FindOne c (\<lambda>d. Task.ID d = i) of
        DecodeError e \<Rightarrow>
          (if e = ErrNoDocuments then ((None, None), c) else ((None, Some e), c))
      | Decoded task \<Rightarrow> ((Some task, None), c))"

definition taskRepository_Update ::
  "Time \<Rightarrow> Task \<Rightarrow> Task Collection \<Rightarrow> error option \<times> Task Collection" where
  "taskRepository_Update t task c =
     (let task1 = task\<lparr>Task.UpdatedAt := t\<rparr> in
      case UpdateOne c (\<lambda>d. Task.ID d = Task.ID task1) task1 of
        ((_, Some e), c1) \<Rightarrow> (Some e, c1)
      | ((n, None), c1) \<Rightarrow>
          (if n = 0 then (Some (Err ''no document found to update''), c1) else (None, c1)))"

definition taskRepository ::
  "Time \<Rightarrow> Time \<Rightarrow> ObjectID \<Rightarrow> Task Collection TaskRepository" where
  "taskRepository t1 t2 assigned =
     \<lparr>Create = taskRepository_Create t1 t2 assigned,
      GetByID = taskRepository_GetByID,
      Update = taskRepository_Update t1\<rparr>"

section \<open>The task use case\<close>

definition CreateTask ::
  "Time \<Rightarrow> 's TaskRepository \<Rightarrow> Task \<Rightarrow> 's \<Rightarrow> (Task option \<times> error option) \<times> 's" where
  "CreateTask now repo task s =
     (if Title task = [] then ((None, Some (Err ''task title is required'')), s)
      else if DueDate task < now then ((None, Some (Err ''due date cannot be in the past'')), s)
      else Create repo (task\<lparr>Status := StatusPending\<rparr>) s)"

definition UpdateTask ::
  "Time \<Rightarrow> 's TaskRepository \<Rightarrow> Task \<Rightarrow> 's \<Rightarrow> (error option \<times> 's) outcome" where
  "UpdateTask now repo task s =
     (if Title task = [] then Returns (Some (Err ''task title is required''), s)
      else if DueDate task < now then Returns (Some (Err ''due date cannot be in the past''), s)
      else
        (case GetByID repo (Task.ID task) s of
           ((_, Some e), s1) \<Rightarrow> Returns (Some e, s1)
         | ((None, None), s1) \<Rightarrow> Panics
         | ((Some existingTask, None), s1) \<Rightarrow>
             (if Status existingTask = StatusCompleted \<and> Status task \<noteq> StatusCompleted
              then Returns (Some (Err ''cannot change status of completed task''), s1)
              else Returns (Update repo task s1))))"

section \<open>The user repository and the user use case\<close>

text \<open>
  Of \<open>domain.UserRepository\<close> only \<open>GetByEmail\<close> is called by \<open>Login\<close>.
\<close>

record 's UserRepository =
  GetByEmail :: "string \<Rightarrow> 's \<Rightarrow> (User option \<times> error option) \<times> 's"

definition userRepository_GetByEmail ::
  "string \<Rightarrow> User Collection \<Rightarrow> (User option \<times> error option) \<times> User Collection" where
  "userRepository_GetByEmail email c =
     (case FindOne c (\<lambda>d. Email d = email) of
        DecodeError e \<Rightarrow>
          (if e = ErrNoDocuments then ((None, None), c) else ((None, Some e), c))
      | Decoded user \<Rightarrow> ((Some user, None), c))"

definition userRepository :: "User Collection UserRepository" where
  "userRepository = \<lparr>GetByEmail = userRepository_GetByEmail\<rparr>"

text \<open>
  The use case holds its repository and the three functions it was built with.
  \<open>Hex\<close>, the driver's rendering of an identifier, is an argument of \<open>Login\<close>.
\<close>

record 's userUseCase =
  userRepo :: "'s UserRepository"
  hashPassword :: "string \<Rightarrow> string \<times> error option"
  comparePasswords :: "string \<Rightarrow> string \<Rightarrow> bool"
  generateToken :: "string \<Rightarrow> string \<Rightarrow> string \<times> error option"

definition Login ::
  "(ObjectID \<Rightarrow> string) \<Rightarrow> 's userUseCase \<Rightarrow> string \<Rightarrow> string \<Rightarrow> 's
     \<Rightarrow> ((User option \<times> string \<times> error option) \<times> 's) outcome" where
  "Login Hex u email password s =
     (case GetByEmail (userRepo u) email s of
        ((_, Some e), s1) \<Rightarrow> Returns ((None, [], Some (Err ''invalid credentials'')), s1)
      | ((None, None), s1) \<Rightarrow> Panics
      | ((Some user, None), s1) \<Rightarrow>
          (if \<not> comparePasswords u (Password user) password
           then Returns ((None, [], Some (Err ''invalid credentials'')), s1)
           else
             (case generateToken u (Hex (User.ID user)) (User.Role user) of
                (_, Some e) \<Rightarrow> Returns ((None, [], Some e), s1)
              | (token, None) \<Rightarrow> Returns ((Some user, token, None), s1))))"

section \<open>The request context and the access guard\<close>

text \<open>
  What a handler sees of a \<open>gin.Context\<close>: the request's headers, the outcome of
  binding the request body to a task (\<open>ShouldBindJSON\<close>: the bound task, or the
  message of the binding error), the keys set on the context, whether the chain was
  aborted, and the response written so far. A value stored under a key is a string,
  a pointer to claims, or nil.
\<close>

datatype ctx_value = VString string | VClaims "Claims option" | VNil

datatype response_body = H_error string | APIResponse string "Task option"

record gin_Context =
  Header :: "string \<rightharpoonup> string"
  Body :: "string + Task"
  Keys :: "string \<rightharpoonup> ctx_value"
  Aborted :: bool
  Response :: "(nat \<times> response_body) option"

type_synonym 's HandlerFunc = "gin_Context \<Rightarrow> 's \<Rightarrow> (gin_Context \<times> 's) outcome"

definition GetHeader :: "gin_Context \<Rightarrow> string \<Rightarrow> string" where
  "GetHeader c k = (case Header c k of None \<Rightarrow> [] | Some v \<Rightarrow> v)"

definition JSON :: "nat \<Rightarrow> response_body \<Rightarrow> gin_Context \<Rightarrow> gin_Context" where
  "JSON code obj c = c\<lparr>Response := Some (code, obj)\<rparr>"

definition Abort :: "gin_Context \<Rightarrow> gin_Context" where
  "Abort c = c\<lparr>Aborted := True\<rparr>"

definition Set_key :: "string \<Rightarrow> ctx_value \<Rightarrow> gin_Context \<Rightarrow> gin_Context" where
  "Set_key k v c = c\<lparr>Keys := (Keys c)(k \<mapsto> v)\<rparr>"

text \<open>\<open>strings.Split\<close> with a separator of one byte.\<close>

fun Split :: "string \<Rightarrow> char \<Rightarrow> string list" where
  "Split [] sep = [[]]"
| "Split (x # xs) sep =
     (if x = sep then [] # Split xs sep
      else (case Split xs sep of [] \<Rightarrow> [[x]] | w # ws \<Rightarrow> (x # w) # ws))"

definition StatusUnauthorized :: nat where
  "StatusUnauthorized = 401"

definition StatusForbidden :: nat where
  "StatusForbidden = 403"

definition StatusBadRequest :: nat where
  "StatusBadRequest = 400"

definition StatusCreated :: nat where
  "StatusCreated = 201"

text \<open>
  A middleware is given the rest of its chain, which \<open>c.Next()\<close> runs; both
  middlewares either abort and return, or end by calling \<open>c.Next()\<close>.
\<close>

definition AuthMiddleware ::
  "(string \<Rightarrow> Claims option \<times> error option) \<Rightarrow> 's HandlerFunc \<Rightarrow> 's HandlerFunc" where
  "AuthMiddleware validateToken next c s =
     (let authHeader = GetHeader c ''Authorization'' in
      if authHeader = []
      then Returns (Abort (JSON StatusUnauthorized
                             (H_error ''authorization header is required'') c), s)
      else
        (let parts = Split authHeader (CHR '' '') in
         if length parts \<noteq> 2
         then Returns (Abort (JSON StatusUnauthorized
                                (H_error ''invalid authorization header format'') c), s)
         else if parts ! 0 \<noteq> ''Bearer''
         then Returns (Abort (JSON StatusUnauthorized
                                (H_error ''invalid authorization header format'') c), s)
         else
           (case validateToken (parts ! 1) of
              (_, Some e) \<Rightarrow>
                Returns (Abort (JSON StatusUnauthorized (H_error ''invalid token'') c), s)
            | (claims, None) \<Rightarrow> next (Set_key ''claims'' (VClaims claims) c) s)))"

definition AdminMiddleware :: "'s HandlerFunc \<Rightarrow> 's HandlerFunc" where
  "AdminMiddleware next c s =
     (case Keys c ''role'' of
        None \<Rightarrow>
          Returns (Abort (JSON StatusForbidden (H_error ''admin access required'') c), s)
      | Some role \<Rightarrow>
          (if role \<noteq> VString ''admin''
           then Returns (Abort (JSON StatusForbidden (H_error ''admin access required'') c), s)
           else next c s))"

section \<open>The task controller and the routes\<close>

fun Error :: "error \<Rightarrow> string" where
  "Error ErrNoDocuments = ''mongo: no documents in result''"
| "Error (Err msg) = msg"

text \<open>
  \<open>ObjectIDFromHex\<close>, the driver's parser of an identifier (\<open>None\<close>: it fails), and
  the reading of the clock in the use case are arguments of the handler.
\<close>

definition TaskController_CreateTask ::
  "(string \<Rightarrow> ObjectID option) \<Rightarrow> Time \<Rightarrow> 's TaskRepository \<Rightarrow> 's HandlerFunc" where
  "TaskController_CreateTask ObjectIDFromHex now repo c s =
     (case Keys c ''user_id'' of
        None \<Rightarrow> Returns (JSON StatusUnauthorized (APIResponse ''unauthorized'' None) c, s)
      | Some userID \<Rightarrow>
          (case Body c of
             Inl msg \<Rightarrow> Returns (JSON StatusBadRequest (APIResponse msg None) c, s)
           | Inr task \<Rightarrow>
               (case userID of
                  VString hex \<Rightarrow>
                    (case ObjectIDFromHex hex of
                       None \<Rightarrow>
                         Returns (JSON StatusBadRequest (APIResponse ''Invalid user ID'' None) c, s)
                     | Some i \<Rightarrow>
                         (case CreateTask now repo (task\<lparr>Task.UserID := i\<rparr>) s of
                            ((_, Some e), s1) \<Rightarrow>
                              Returns (JSON StatusBadRequest (APIResponse (Error e) None) c, s1)
                          | ((createdTask, None), s1) \<Rightarrow>
                              Returns (JSON StatusCreated
                                (APIResponse ''Task created successfully'' createdTask) c, s1)))
                | _ \<Rightarrow> Panics)))"


definition admin_route ::
  "('s HandlerFunc \<Rightarrow> 's HandlerFunc) \<Rightarrow> ('s HandlerFunc \<Rightarrow> 's HandlerFunc)
     \<Rightarrow> 's HandlerFunc \<Rightarrow> 's HandlerFunc" where
  "admin_route authMiddleware adminMiddleware handler = authMiddleware (adminMiddleware handler)"

section \<open>Sample inputs\<close>

definition storedTask :: "string \<Rightarrow> Task" where
  "storedTask st = \<lparr>Task.ID = ''t1'', Title = ''Write report'', Description = [],
     DueDate = 200, Status = st, Task.UserID = ''u1'',
     Task.CreatedAt = 10, Task.UpdatedAt = 10\<rparr>"

definition taskStore :: "string \<Rightarrow> Task Collection" where
  "taskStore st = \<lparr>docs = [storedTask st], outage = None\<rparr>"

definition emptyStore :: "Task Collection" where
  "emptyStore = \<lparr>docs = [], outage = None\<rparr>"

definition adminClaims :: Claims where
  "adminClaims = \<lparr>Claims.UserID = ''64b7f0c2a1d4e5f6a7b8c9d0'', Claims.Role = ''admin'',
     ExpiresAt = 86400, IssuedAt = 0\<rparr>"

definition acceptAdmin :: "string \<Rightarrow> Claims option \<times> error option" where
  "acceptAdmin token = (Some adminClaims, None)"

definition bodyTask :: Task where
  "bodyTask = \<lparr>Task.ID = [], Title = ''Write report'', Description = [],
     DueDate = 200, Status = ''completed'', Task.UserID = ''ffffffffffff'',
     Task.CreatedAt = 0, Task.UpdatedAt = 0\<rparr>"

definition bearerRequest :: gin_Context where
  "bearerRequest = \<lparr>Header = [''Authorization'' \<mapsto> ''Bearer valid_token''],
     Body = Inr bodyTask, Keys = Map.empty, Aborted = False, Response = None\<rparr>"

definition successHandler :: "'s HandlerFunc" where
  "successHandler c s = Returns (JSON 200 (APIResponse ''success'' None) c, s)"

definition idOfHex :: "string \<Rightarrow> ObjectID option" where
  "idOfHex hex = (if length hex = 24 then Some (take 12 hex) else None)"

definition emptyUsers :: "User Collection" where
  "emptyUsers = \<lparr>docs = [], outage = None\<rparr>"

definition alice :: User where
  "alice = \<lparr>User.ID = ''u1'', Name = ''Alice'', Email = ''alice@example.com'',
     Password = ''hash-of-secret'', User.Role = ''user'',
     User.CreatedAt = 10, User.UpdatedAt = 10\<rparr>"

definition sampleUseCase :: "User Collection userUseCase" where
  "sampleUseCase = \<lparr>userRepo = userRepository,
     hashPassword = (\<lambda>p. (''hash-of-'' @ p, None)),
     comparePasswords = (\<lambda>h p. h = ''hash-of-'' @ p),
     generateToken = (\<lambda>i r. (i @ ''.'' @ r, None))\<rparr>"

section \<open>Evaluation rules\<close>

lemmas repo_simps = taskRepository_def taskRepository_GetByID_def taskRepository_Update_def
  taskRepository_Create_def FindOne_def UpdateOne_def InsertOne_def Let_def

lemmas sample_simps = storedTask_def taskStore_def emptyStore_def
  StatusPending_def StatusInProgress_def StatusCompleted_def

lemmas gin_simps = GetHeader_def Set_key_def bearerRequest_def acceptAdmin_def

section \<open>The repository on a collection\<close>

lemma taskRepository_GetByID_absent:
  assumes "outage c = None" and "i \<notin> Task.ID ` set (docs c)"
  shows "taskRepository_GetByID i c = ((None, None), c)"
proof -
  from assms(2) have "find (\<lambda>d. Task.ID d = i) (docs c) = None"
    by (auto simp: find_None_iff)
  with assms(1) show ?thesis
    by (simp add: taskRepository_GetByID_def FindOne_def)
qed

lemma taskRepository_GetByID_present:
  assumes "outage c = None" and "i \<in> Task.ID ` set (docs c)"
  shows "\<exists>t. taskRepository_GetByID i c = ((Some t, None), c)"
proof -
  from assms(2) obtain t where "find (\<lambda>d. Task.ID d = i) (docs c) = Some t"
    by (cases "find (\<lambda>d. Task.ID d = i) (docs c)") (auto simp: find_None_iff)
  with assms(1) show ?thesis
    by (simp add: taskRepository_GetByID_def FindOne_def)
qed

lemma userRepository_GetByEmail_absent:
  assumes "outage c = None" and "email \<notin> Email ` set (docs c)"
  shows "userRepository_GetByEmail email c = ((None, None), c)"
proof -
  from assms(2) have "find (\<lambda>d. Email d = email) (docs c) = None"
    by (auto simp: find_None_iff)
  with assms(1) show ?thesis
    by (simp add: userRepository_GetByEmail_def FindOne_def)
qed

section \<open>The access guard\<close>

text \<open>
  C1. On the admin route the authentication middleware runs before the admin
  middleware. The authentication middleware stores the validated claims under the key
  \<open>claims\<close> and nothing under \<open>role\<close>, the key the admin middleware reads. A request
  that arrives with no \<open>role\<close> key therefore never reaches the handler of the admin
  route, whatever the token validator answers: the chain is aborted with 401 by the
  authentication middleware or with 403 by the admin middleware. In particular a
  request whose token validates to claims of role \<open>admin\<close> is rejected with 403 and
  \<open>admin access required\<close>, where the claim has it admitted.
\<close>

theorem admin_route_never_admits:
  assumes "Keys c ''role'' = None"
  shows "\<exists>c' code msg.
           admin_route (AuthMiddleware validateToken) AdminMiddleware handler c s = Returns (c', s)
           \<and> Aborted c' \<and> Response c' = Some (code, H_error msg)
           \<and> (code = StatusUnauthorized \<or> code = StatusForbidden)"
  using assms
  by (simp add: admin_route_def AuthMiddleware_def AdminMiddleware_def Let_def
        Abort_def JSON_def Set_key_def split: prod.split option.split)

theorem admin_route_rejects_admin_claims:
  "admin_route (AuthMiddleware acceptAdmin) AdminMiddleware successHandler bearerRequest emptyStore =
     Returns (Abort (JSON StatusForbidden (H_error ''admin access required'')
                (Set_key ''claims'' (VClaims (Some adminClaims)) bearerRequest)), emptyStore)"
proof -
  have k: "Keys bearerRequest ''role'' = None"
    by (simp add: bearerRequest_def)
  from admin_route_never_admits [OF k, of acceptAdmin successHandler emptyStore]
  show ?thesis
    by (simp add: admin_route_def AuthMiddleware_def AdminMiddleware_def gin_simps)
qed



section \<open>Login\<close>

text \<open>
  C3. When the store is reachable and holds no user with the given email, the
  repository's \<open>GetByEmail\<close> returns a nil user with a nil error, and \<open>Login\<close>, which
  guards only against the error, reads the password of the nil user: the call panics
  for every password. It does not return \<open>invalid credentials\<close>, as the claim has it.
\<close>

theorem Login_unknown_email_panics:
  assumes "outage c = None" and "email \<notin> Email ` set (docs c)"
  shows "Login Hex (u\<lparr>userRepo := userRepository\<rparr>) email password c = Panics"
  using userRepository_GetByEmail_absent [OF assms]
  by (simp add: Login_def userRepository_def)

theorem Login_unknown_email_panics_witness:
  "Login id sampleUseCase ''nobody@example.com'' ''secret'' emptyUsers = Panics"
  using Login_unknown_email_panics [where c = emptyUsers and email = "''nobody@example.com''"
      and u = sampleUseCase and Hex = id and password = "''secret''"]
  by (simp add: emptyUsers_def sampleUseCase_def)

section \<open>The task use case\<close>

text \<open>
  C4. The only transition \<open>UpdateTask\<close> refuses is the one away from \<open>completed\<close>.
  For an update with a valid title and due date whose stored task is not completed, the
  update is handed to the repository whatever the two statuses are, so the pairs
  in_progress to pending and pending to completed are accepted as well, which the
  claim's state machine (and the comment above the check) rules out.
\<close>

theorem UpdateTask_accepts_any_transition_before_completed:
  assumes "GetByID repo (Task.ID task) s = ((Some existingTask, None), s1)"
    and "Status existingTask \<noteq> StatusCompleted"
    and "Title task \<noteq> []"
    and "\<not> DueDate task < now"
  shows "UpdateTask now repo task s = Returns (Update repo task s1)"
  using assms by (simp add: UpdateTask_def)

theorem UpdateTask_accepts_backward_transition:
  "UpdateTask 100 (taskRepository 100 100 ''t2'') (storedTask StatusPending)
     (taskStore StatusInProgress) =
   Returns (None, \<lparr>docs = [(storedTask StatusPending)\<lparr>Task.UpdatedAt := 100\<rparr>], outage = None\<rparr>)"
proof -
  have g: "GetByID (taskRepository 100 100 ''t2'') (Task.ID (storedTask StatusPending))
             (taskStore StatusInProgress) =
           ((Some (storedTask StatusInProgress), None), taskStore StatusInProgress)"
    by (simp add: repo_simps sample_simps)
  have "UpdateTask 100 (taskRepository 100 100 ''t2'') (storedTask StatusPending)
          (taskStore StatusInProgress) =
        Returns (Update (taskRepository 100 100 ''t2'') (storedTask StatusPending)
          (taskStore StatusInProgress))"
    by (rule UpdateTask_accepts_any_transition_before_completed [OF g])
       (simp_all add: sample_simps)
  then show ?thesis
    by (simp add: repo_simps sample_simps)
qed

text \<open>
  C5. When the repository returns a stored task whose status is \<open>completed\<close> and the
  incoming update, with a non-empty title and a due date not before the call time, has
  any other status, \<open>UpdateTask\<close> returns the error
  \<open>cannot change status of completed task\<close>. The result does not depend on the
  repository's \<open>Update\<close>, which is therefore not called, and the store is in the state
  \<open>GetByID\<close> left it in.
\<close>

theorem UpdateTask_completed_is_terminal:
  assumes "GetByID repo (Task.ID task) s = ((Some existingTask, None), s1)"
    and "Status existingTask = StatusCompleted"
    and "Status task \<noteq> StatusCompleted"
    and "Title task \<noteq> []"
    and "\<not> DueDate task < now"
  shows "UpdateTask now (repo\<lparr>Update := anyUpdate\<rparr>) task s =
           Returns (Some (Err ''cannot change status of completed task''), s1)"
  using assms by (simp add: UpdateTask_def)

theorem UpdateTask_completed_is_terminal_witness:
  "UpdateTask 100 (taskRepository 100 100 ''t2'') (storedTask StatusPending)
     (taskStore StatusCompleted) =
   Returns (Some (Err ''cannot change status of completed task''), taskStore StatusCompleted)"
proof -
  have g: "GetByID (taskRepository 100 100 ''t2'') (Task.ID (storedTask StatusPending))
             (taskStore StatusCompleted) =
           ((Some (storedTask StatusCompleted), None), taskStore StatusCompleted)"
    by (simp add: repo_simps sample_simps)
  have "UpdateTask 100
          ((taskRepository 100 100 ''t2'')\<lparr>Update := Update (taskRepository 100 100 ''t2'')\<rparr>)
          (storedTask StatusPending) (taskStore StatusCompleted) =
        Returns (Some (Err ''cannot change status of completed task''), taskStore StatusCompleted)"
    by (rule UpdateTask_completed_is_terminal [OF g]) (simp_all add: sample_simps)
  then show ?thesis by simp
qed

text \<open>
  C6, as the code has it. \<open>CreateTask\<close> rejects a due date that lies before the call
  time: the call fails, with \<open>due date cannot be in the past\<close> when the title is not
  empty and with \<open>task title is required\<close> when it is, and the result does not depend
  on the repository's \<open>Create\<close>, which is not called. A due date equal to the call time
  is not before it and passes the check.
\<close>

theorem CreateTask_past_due_date_rejected:
  assumes "DueDate task < now"
  shows "CreateTask now (repo\<lparr>Create := anyCreate\<rparr>) task s =
           ((None, Some (if Title task = [] then Err ''task title is required''
                         else Err ''due date cannot be in the past'')), s)"
  using assms by (simp add: CreateTask_def)

theorem CreateTask_past_due_date_rejected_witness:
  "CreateTask 201 (taskRepository 201 201 ''t1'') (storedTask StatusPending) emptyStore =
     ((None, Some (Err ''due date cannot be in the past'')), emptyStore)"
  using CreateTask_past_due_date_rejected [where task = "storedTask StatusPending"
      and now = 201 and repo = "taskRepository 201 201 ''t1''"
      and anyCreate = "Create (taskRepository 201 201 ''t1'')" and s = emptyStore]
  by (simp add: sample_simps)

text \<open>
  C6, as the claim states it, fails: a task whose due date equals the call time is
  created.
\<close>

theorem CreateTask_equal_due_date_accepted:
  "CreateTask 200 (taskRepository 200 200 ''t1'') (storedTask StatusCompleted) emptyStore =
     ((Some ((storedTask StatusPending)\<lparr>Task.CreatedAt := 200, Task.UpdatedAt := 200\<rparr>), None),
      \<lparr>docs = [(storedTask StatusPending)\<lparr>Task.CreatedAt := 200, Task.UpdatedAt := 200\<rparr>],
       outage = None\<rparr>)"
  by (simp add: CreateTask_def repo_simps sample_simps)

text \<open>
  C7. For a task with a non-empty title and a due date after the call time,
  \<open>CreateTask\<close> hands the repository's \<open>Create\<close> the task with its status set to
  \<open>pending\<close>, whatever status the caller supplied.
\<close>

theorem CreateTask_forces_pending:
  assumes "Title task \<noteq> []" and "now < DueDate task"
  shows "CreateTask now repo (task\<lparr>Status := supplied\<rparr>) s =
           Create repo (task\<lparr>Status := StatusPending\<rparr>) s"
  using assms by (simp add: CreateTask_def)

theorem CreateTask_forces_pending_witness:
  "CreateTask 100 (taskRepository 100 101 ''t1'')
     ((storedTask StatusPending)\<lparr>Status := StatusCompleted\<rparr>) emptyStore =
   ((Some ((storedTask StatusPending)\<lparr>Task.CreatedAt := 100, Task.UpdatedAt := 101\<rparr>), None),
    \<lparr>docs = [(storedTask StatusPending)\<lparr>Task.CreatedAt := 100, Task.UpdatedAt := 101\<rparr>],
     outage = None\<rparr>)"
  using CreateTask_forces_pending [where task = "storedTask StatusPending" and now = 100
      and repo = "taskRepository 100 101 ''t1''" and supplied = StatusCompleted
      and s = emptyStore]
  by (simp add: sample_simps repo_simps)

text \<open>
  C10. While the store is reachable, the repository's \<open>GetByID\<close> answers an
  identifier that no stored task has with a nil task and a nil error. \<open>UpdateTask\<close>
  checks only the error before it reads the status of the fetched task, so for an
  update with a valid title and due date the call panics exactly when no stored task
  has the update's identifier.
\<close>

theorem UpdateTask_nil_dereference:
  assumes "outage c = None" and "Title task \<noteq> []" and "\<not> DueDate task < now"
  shows "(Task.ID task \<notin> Task.ID ` set (docs c) \<longrightarrow>
            taskRepository_GetByID (Task.ID task) c = ((None, None), c)) \<and>
         (UpdateTask now (taskRepository t1 t2 assigned) task c = Panics
            \<longleftrightarrow> Task.ID task \<notin> Task.ID ` set (docs c))"
proof (cases "Task.ID task \<in> Task.ID ` set (docs c)")
  case True
  from taskRepository_GetByID_present [OF assms(1) True]
  obtain t where "taskRepository_GetByID (Task.ID task) c = ((Some t, None), c)" ..
  with True assms show ?thesis
    by (simp add: UpdateTask_def taskRepository_def)
next
  case False
  from taskRepository_GetByID_absent [OF assms(1) False] False assms show ?thesis
    by (simp add: UpdateTask_def taskRepository_def)
qed

theorem UpdateTask_nil_dereference_witness:
  "taskRepository_GetByID ''t1'' emptyStore = ((None, None), emptyStore) \<and>
   UpdateTask 100 (taskRepository 100 100 ''t2'') (storedTask StatusPending) emptyStore = Panics \<and>
   UpdateTask 100 (taskRepository 100 100 ''t2'') (storedTask StatusInProgress)
     (taskStore StatusPending) \<noteq> Panics"
  using UpdateTask_nil_dereference [where c = emptyStore and task = "storedTask StatusPending"
      and now = 100 and ?t1.0 = 100 and ?t2.0 = 100 and assigned = "''t2''"]
    UpdateTask_nil_dereference [where c = "taskStore StatusPending"
      and task = "storedTask StatusInProgress"
      and now = 100 and ?t1.0 = 100 and ?t2.0 = 100 and assigned = "''t2''"]
  by (simp add: sample_simps)

section \<open>Further properties of the guard, the handler and login\<close>

text \<open>
  X1. The admin middleware alone: it runs the rest of the chain when the context holds
  the string \<open>admin\<close> under the key \<open>role\<close>, and otherwise (no such key, or any
  other value) aborts with 403 and \<open>admin access required\<close>.
\<close>

theorem AdminMiddleware_gate:
  "AdminMiddleware next c s =
     (if Keys c ''role'' = Some (VString ''admin'') then next c s
      else Returns (Abort (JSON StatusForbidden (H_error ''admin access required'') c), s))"
  by (simp add: AdminMiddleware_def split: option.split)

text \<open>
  X2. The create-task handler alone: when the context holds a string under \<open>user_id\<close>
  that parses to an identifier, the body binds to a task with a non-empty title and a
  due date not before the call time, and the store is reachable, the task is stored
  with that identifier as its owner, whatever owner the body named, and the response
  is 201 with the created task.
\<close>

theorem TaskController_CreateTask_owner:
  assumes "Keys c ''user_id'' = Some (VString hex)"
    and "ObjectIDFromHex hex = Some i"
    and "Body c = Inr task"
    and "Title task \<noteq> []"
    and "\<not> DueDate task < now"
    and "outage st = None"
  shows "\<exists>c' t.
           TaskController_CreateTask ObjectIDFromHex now (taskRepository t1 t2 assigned) c st =
             Returns (c', st\<lparr>docs := docs st @ [t]\<rparr>)
           \<and> Task.UserID t = i \<and> Status t = StatusPending
           \<and> Response c' = Some (StatusCreated, APIResponse ''Task created successfully'' (Some t))"
  using assms
  by (simp add: TaskController_CreateTask_def CreateTask_def repo_simps JSON_def)

theorem TaskController_CreateTask_owner_witness:
  "TaskController_CreateTask idOfHex 100 (taskRepository 100 101 ''t1'')
     (bearerRequest\<lparr>Keys := [''user_id'' \<mapsto> VString ''64b7f0c2a1d4e5f6a7b8c9d0'']\<rparr>) emptyStore =
   Returns
     (JSON StatusCreated
        (APIResponse ''Task created successfully''
           (Some (bodyTask\<lparr>Task.ID := ''t1'', Status := StatusPending,
              Task.UserID := ''64b7f0c2a1d4'', Task.CreatedAt := 100, Task.UpdatedAt := 101\<rparr>)))
        (bearerRequest\<lparr>Keys := [''user_id'' \<mapsto> VString ''64b7f0c2a1d4e5f6a7b8c9d0'']\<rparr>),
      \<lparr>docs = [bodyTask\<lparr>Task.ID := ''t1'', Status := StatusPending,
              Task.UserID := ''64b7f0c2a1d4'', Task.CreatedAt := 100, Task.UpdatedAt := 101\<rparr>],
       outage = None\<rparr>)"
  using TaskController_CreateTask_owner [where
      c = "bearerRequest\<lparr>Keys := [''user_id'' \<mapsto> VString ''64b7f0c2a1d4e5f6a7b8c9d0'']\<rparr>"
      and hex = "''64b7f0c2a1d4e5f6a7b8c9d0''" and ObjectIDFromHex = idOfHex
      and i = "''64b7f0c2a1d4''" and task = bodyTask and now = 100 and st = emptyStore
      and ?t1.0 = 100 and ?t2.0 = 101 and assigned = "''t1''"]
  by (simp add: TaskController_CreateTask_def CreateTask_def repo_simps JSON_def
        bearerRequest_def bodyTask_def idOfHex_def emptyStore_def StatusPending_def)

text \<open>
  X3. \<open>Login\<close> for an email the repository finds: a password the comparison refuses
  gives \<open>invalid credentials\<close> with no user and an empty token; a password it accepts
  gives the user and the token generated from the user's identifier and role.
\<close>

theorem Login_known_email:
  assumes "GetByEmail (userRepo u) email s = ((Some user, None), s1)"
    and "generateToken u (Hex (User.ID user)) (User.Role user) = (token, None)"
  shows "Login Hex u email password s =
           (if comparePasswords u (Password user) password
            then Returns ((Some user, token, None), s1)
            else Returns ((None, [], Some (Err ''invalid credentials'')), s1))"
  using assms by (simp add: Login_def)

theorem Login_known_email_witness:
  "Login id sampleUseCase ''alice@example.com'' ''secret'' \<lparr>docs = [alice], outage = None\<rparr> =
     Returns ((Some alice, ''u1.user'', None), \<lparr>docs = [alice], outage = None\<rparr>) \<and>
   Login id sampleUseCase ''alice@example.com'' ''guess'' \<lparr>docs = [alice], outage = None\<rparr> =
     Returns ((None, [], Some (Err ''invalid credentials'')), \<lparr>docs = [alice], outage = None\<rparr>)"
proof -
  have g: "GetByEmail (userRepo sampleUseCase) ''alice@example.com'' \<lparr>docs = [alice], outage = None\<rparr> =
             ((Some alice, None), \<lparr>docs = [alice], outage = None\<rparr>)"
    by (simp add: sampleUseCase_def userRepository_def userRepository_GetByEmail_def
          FindOne_def alice_def)
  have t: "generateToken sampleUseCase (id (User.ID alice)) (User.Role alice) = (''u1.user'', None)"
    by (simp add: sampleUseCase_def alice_def)
  note login = Login_known_email [where Hex = id and u = sampleUseCase
      and email = "''alice@example.com''" and user = alice and token = "''u1.user''", OF g t]
  from login [of "''secret''"] login [of "''guess''"]
  show ?thesis
    by (simp add: sampleUseCase_def alice_def)
qed

end
